theory Spec2Isabelle
  imports Main "HOL-Library.Word"
begin

unbundle bit_operations_syntax

section \<open>Library functions used by \<open>generateShortURL\<close>\<close>

text \<open>
  \<open>generateShortURL\<close> calls \<open>crypto/md5\<close> and \<open>encoding/hex\<close> of the Go standard
  library. Both are modelled by what they compute: MD5 as RFC 1321 defines it (padding,
  64 steps per 64-byte block on four 32-bit registers, little-endian output) and
  \<open>hex.EncodeToString\<close> as two characters of the table \<open>0123456789abcdef\<close> per byte.
  A Go \<open>string\<close> is a sequence of bytes; it is modelled as \<open>string\<close>, whose characters
  are bytes.
\<close>

type_synonym byte = "8 word"
type_synonym uint32 = "32 word"
type_synonym uint64 = "64 word"

definition string_bytes :: "string \<Rightarrow> byte list" where
  \<comment> \<open>the conversion \<open>[]byte(s)\<close>\<close>
  "string_bytes s = map of_char s"

definition RotateLeft32 :: "uint32 \<Rightarrow> nat \<Rightarrow> uint32" where
  "RotateLeft32 x k = push_bit k x OR drop_bit (32 - k) x"

definition le_uint32 :: "byte list \<Rightarrow> uint32" where
  \<comment> \<open>four bytes, least significant first\<close>
  "le_uint32 bs = foldr (\<lambda>b w. ucast b OR push_bit 8 w) (take 4 bs) 0"

definition put_uint32 :: "uint32 \<Rightarrow> byte list" where
  "put_uint32 w = map (\<lambda>i. ucast (drop_bit (8 * i) w)) [0, 1, 2, 3]"

definition put_uint64 :: "uint64 \<Rightarrow> byte list" where
  "put_uint64 w = map (\<lambda>i. ucast (drop_bit (8 * i) w)) [0, 1, 2, 3, 4, 5, 6, 7]"

definition md5_K :: "uint32 list" where
  "md5_K =
    [0xd76aa478, 0xe8c7b756, 0x242070db, 0xc1bdceee,
     0xf57c0faf, 0x4787c62a, 0xa8304613, 0xfd469501,
     0x698098d8, 0x8b44f7af, 0xffff5bb1, 0x895cd7be,
     0x6b901122, 0xfd987193, 0xa679438e, 0x49b40821,
     0xf61e2562, 0xc040b340, 0x265e5a51, 0xe9b6c7aa,
     0xd62f105d, 0x02441453, 0xd8a1e681, 0xe7d3fbc8,
     0x21e1cde6, 0xc33707d6, 0xf4d50d87, 0x455a14ed,
     0xa9e3e905, 0xfcefa3f8, 0x676f02d9, 0x8d2a4c8a,
     0xfffa3942, 0x8771f681, 0x6d9d6122, 0xfde5380c,
     0xa4beea44, 0x4bdecfa9, 0xf6bb4b60, 0xbebfbc70,
     0x289b7ec6, 0xeaa127fa, 0xd4ef3085, 0x04881d05,
     0xd9d4d039, 0xe6db99e5, 0x1fa27cf8, 0xc4ac5665,
     0xf4292244, 0x432aff97, 0xab9423a7, 0xfc93a039,
     0x655b59c3, 0x8f0ccc92, 0xffeff47d, 0x85845dd1,
     0x6fa87e4f, 0xfe2ce6e0, 0xa3014314, 0x4e0811a1,
     0xf7537e82, 0xbd3af235, 0x2ad7d2bb, 0xeb86d391]"

definition md5_S :: "nat list" where
  "md5_S =
    [7, 12, 17, 22, 7, 12, 17, 22, 7, 12, 17, 22, 7, 12, 17, 22,
     5, 9, 14, 20, 5, 9, 14, 20, 5, 9, 14, 20, 5, 9, 14, 20,
     4, 11, 16, 23, 4, 11, 16, 23, 4, 11, 16, 23, 4, 11, 16, 23,
     6, 10, 15, 21, 6, 10, 15, 21, 6, 10, 15, 21, 6, 10, 15, 21]"

type_synonym md5_state = "uint32 \<times> uint32 \<times> uint32 \<times> uint32"

definition md5_init :: md5_state where
  "md5_init = (0x67452301, 0xefcdab89, 0x98badcfe, 0x10325476)"

definition md5_F :: "nat \<Rightarrow> uint32 \<Rightarrow> uint32 \<Rightarrow> uint32 \<Rightarrow> uint32" where
  "md5_F i b c d =
     (if i < 16 then (b AND c) OR (NOT b AND d)
      else if i < 32 then (d AND b) OR (NOT d AND c)
      else if i < 48 then b XOR c XOR d
      else c XOR (b OR NOT d))"

definition md5_g :: "nat \<Rightarrow> nat" where
  "md5_g i =
     (if i < 16 then i
      else if i < 32 then (5 * i + 1) mod 16
      else if i < 48 then (3 * i + 5) mod 16
      else (7 * i) mod 16)"

fun md5_step :: "uint32 list \<Rightarrow> md5_state \<Rightarrow> nat \<Rightarrow> md5_state" where
  "md5_step m (a, b, c, d) i =
     (d, b + RotateLeft32 (md5_F i b c d + a + md5_K ! i + m ! md5_g i) (md5_S ! i), b, c)"

definition block_words :: "byte list \<Rightarrow> uint32 list" where
  \<comment> \<open>the sixteen little-endian words of a 64-byte block\<close>
  "block_words blk = map (\<lambda>j. le_uint32 (drop (4 * j) blk)) [0..<16]"

fun add_state :: "md5_state \<Rightarrow> md5_state \<Rightarrow> md5_state" where
  "add_state (a, b, c, d) (a', b', c', d') = (a + a', b + b', c + c', d + d')"

definition md5_block :: "md5_state \<Rightarrow> byte list \<Rightarrow> md5_state" where
  "md5_block st blk = add_state st (foldl (md5_step (block_words blk)) st [0..<64])"

function md5_blocks :: "md5_state \<Rightarrow> byte list \<Rightarrow> md5_state" where
  "md5_blocks st bs =
     (if length bs < 64 then st
      else md5_blocks (md5_block st (take 64 bs)) (drop 64 bs))"
  by pat_completeness auto
termination
  by (relation "measure (\<lambda>(st, bs). length bs)") auto

declare md5_blocks.simps [simp del]

definition md5_pad :: "byte list \<Rightarrow> byte list" where
  \<comment> \<open>one byte \<open>0x80\<close>, zeros up to 56 modulo 64, then the bit length in 64 bits\<close>
  "md5_pad msg =
     msg @ [0x80] @ replicate ((119 - length msg mod 64) mod 64) 0
       @ put_uint64 (push_bit 3 (of_nat (length msg)))"

fun state_bytes :: "md5_state \<Rightarrow> byte list" where
  "state_bytes (a, b, c, d) = put_uint32 a @ put_uint32 b @ put_uint32 c @ put_uint32 d"

definition md5_Sum :: "byte list \<Rightarrow> byte list" where
  \<comment> \<open>\<open>h := md5.New(); h.Write(msg); h.Sum(nil)\<close>\<close>
  "md5_Sum msg = state_bytes (md5_blocks md5_init (md5_pad msg))"

definition hextable :: string where
  "hextable = ''0123456789abcdef''"

definition EncodeToString :: "byte list \<Rightarrow> string" where
  \<comment> \<open>\<open>hex.EncodeToString\<close>\<close>
  "EncodeToString src =
     concat (map (\<lambda>v. [hextable ! unat (drop_bit 4 v), hextable ! unat (v AND 0x0f)]) src)"

section \<open>The data model of \<open>main.go\<close>\<close>

text \<open>
  \<open>time.Time\<close> is a point in time; \<open>time.Now()\<close> reads the clock, so the instant read
  is an input of every function that calls it.
\<close>

type_synonym Time = int

record URL =
  ID :: string
  OriginalURL :: string
  ShortURL :: string
  CreationDate :: Time

text \<open>The global \<open>urlDB\<close>, a Go map from id to \<open>URL\<close>, is passed explicitly.\<close>

type_synonym urlDB = "string \<rightharpoonup> URL"

datatype panic = SliceBoundsOutOfRange

datatype error = errors_New string

definition slice_to :: "string \<Rightarrow> nat \<Rightarrow> panic + string" where
  \<comment> \<open>the slice expression \<open>s[:n]\<close>, which panics when \<open>n\<close> exceeds the length\<close>
  "slice_to s n = (if n \<le> length s then Inr (take n s) else Inl SliceBoundsOutOfRange)"

definition slice_from :: "string \<Rightarrow> nat \<Rightarrow> panic + string" where
  \<comment> \<open>the slice expression \<open>s[n:]\<close>\<close>
  "slice_from s n = (if n \<le> length s then Inr (drop n s) else Inl SliceBoundsOutOfRange)"

section \<open>Identifier derivation and the store\<close>

text \<open>
  \<^verbatim>\<open>
  func generateShortURL(OriginalURL string) string {
      hasher := md5.New()
      hasher.Write([]byte(OriginalURL))
      data := hasher.Sum(nil)
      hash := hex.EncodeToString(data)
      return hash[:8]
  }
  \<close>
\<close>

definition generateShortURL :: "string \<Rightarrow> panic + string" where
  "generateShortURL originalURL =
     (let data = md5_Sum (string_bytes originalURL);
          hash = EncodeToString data
      in slice_to hash 8)"

text \<open>
  \<^verbatim>\<open>
  func createURL(originalURL string) string {
      shortURL := generateShortURL(originalURL)
      id := shortURL
      urlDB[id] = URL{ID: id, OriginalURL: originalURL, ShortURL: shortURL,
                      CreationDate: time.Now()}
      return shortURL
  }
  \<close>
  The function returns the identifier and the updated map; \<open>now\<close> is the clock it read.
\<close>

definition createURL :: "string \<Rightarrow> Time \<Rightarrow> urlDB \<Rightarrow> panic + (string \<times> urlDB)" where
  "createURL originalURL now db =
     (case generateShortURL originalURL of
        Inl p \<Rightarrow> Inl p
      | Inr shortURL \<Rightarrow>
          let ident = shortURL
          in Inr (shortURL,
                  db(ident \<mapsto> \<lparr>ID = ident, OriginalURL = originalURL,
                                ShortURL = shortURL, CreationDate = now\<rparr>)))"

text \<open>
  \<^verbatim>\<open>
  func getURL(id string) (URL, error) {
      url, ok := urlDB[id]
      if !ok { return URL{}, errors.New("URL not found") }
      return url, nil
  }
  \<close>
\<close>

definition getURL :: "urlDB \<Rightarrow> string \<Rightarrow> error + URL" where
  "getURL db ident =
     (case db ident of
        None \<Rightarrow> Inl (errors_New ''URL not found'')
      | Some url \<Rightarrow> Inr url)"

section \<open>The HTTP handlers\<close>

text \<open>
  A request is what the handlers can read of \<open>*http.Request\<close>. The body is given as the
  decoder of \<open>encoding/json\<close> reads it: \<open>None\<close> when the bytes do not start with a JSON
  value (a syntax error, or no bytes at all), otherwise the first JSON value of the body.
\<close>

datatype json =
    JNull
  | JBool bool
  | JNumber string
  | JString string
  | JArray "json list"
  | JObject "(string \<times> json) list"

record Request =
  Method :: string
  Host :: string
  Header :: "(string \<times> string) list"
  Path :: string
  Body :: "json option"

text \<open>
  A response is what the handler does to its \<open>http.ResponseWriter\<close>: a call of
  \<open>http.Error\<close>, a call of \<open>http.Redirect\<close>, or headers set, a status written and a value
  sent through the JSON encoder.
\<close>

datatype response =
    http_Error string nat
  | http_Redirect string nat
  | Encoded "(string \<times> string) list" nat json

definition MethodPost :: string where
  "MethodPost = ''POST''"

definition StatusCreated :: nat where
  "StatusCreated = 201"

definition StatusFound :: nat where
  "StatusFound = 302"

definition StatusBadRequest :: nat where
  "StatusBadRequest = 400"

definition StatusNotFound :: nat where
  "StatusNotFound = 404"

definition StatusMethodNotAllowed :: nat where
  "StatusMethodNotAllowed = 405"

text \<open>
  \<open>Decode\<close> into \<open>struct { URL string `json:"url"` }\<close>, as \<open>encoding/json\<close> documents it:
  an object key is matched to the field by its tag, exactly or case-insensitively; other
  keys are skipped; a string sets the field; \<open>null\<close> has no effect; any other value for the
  field, and any body that is not an object or \<open>null\<close>, is an \<open>UnmarshalTypeError\<close>. A key
  that is absent leaves the field at its zero value, the empty string.
\<close>

datatype decode_error = SyntaxError | UnmarshalTypeError

definition ascii_lower :: "char \<Rightarrow> char" where
  "ascii_lower c =
     (case map_of (zip ''ABCDEFGHIJKLMNOPQRSTUVWXYZ'' ''abcdefghijklmnopqrstuvwxyz'') c of
        None \<Rightarrow> c
      | Some l \<Rightarrow> l)"

definition matches_url_field :: "string \<Rightarrow> bool" where
  "matches_url_field k = (map ascii_lower k = ''url'')"

fun set_field :: "json \<Rightarrow> string \<Rightarrow> decode_error + string" where
  "set_field (JString s) cur = Inr s"
| "set_field JNull cur = Inr cur"
| "set_field (JBool b) cur = Inl UnmarshalTypeError"
| "set_field (JNumber n) cur = Inl UnmarshalTypeError"
| "set_field (JArray vs) cur = Inl UnmarshalTypeError"
| "set_field (JObject kvs) cur = Inl UnmarshalTypeError"

fun decode_members :: "(string \<times> json) list \<Rightarrow> string \<Rightarrow> decode_error + string" where
  "decode_members [] cur = Inr cur"
| "decode_members ((k, v) # kvs) cur =
     (if matches_url_field k
      then (case set_field v cur of
              Inl e \<Rightarrow> Inl e
            | Inr cur' \<Rightarrow> decode_members kvs cur')
      else decode_members kvs cur)"

fun Decode :: "json option \<Rightarrow> decode_error + string" where
  "Decode None = Inl SyntaxError"
| "Decode (Some JNull) = Inr []"
| "Decode (Some (JObject kvs)) = decode_members kvs []"
| "Decode (Some (JBool b)) = Inl UnmarshalTypeError"
| "Decode (Some (JNumber n)) = Inl UnmarshalTypeError"
| "Decode (Some (JString s)) = Inl UnmarshalTypeError"
| "Decode (Some (JArray vs)) = Inl UnmarshalTypeError"

text \<open>
  \<^verbatim>\<open>
  func ShortUrlHandler(w http.ResponseWriter, r *http.Request) {
      if r.Method != http.MethodPost {
          http.Error(w, "Invalid request method", http.StatusMethodNotAllowed)
          return
      }
      var data struct { URL string `json:"url"` }
      err := json.NewDecoder(r.Body).Decode(&data)
      if err != nil {
          http.Error(w, "Invalid request body", http.StatusBadRequest)
          return
      }
      shortURL_ := createURL(data.URL)
      fullShortURL := fmt.Sprintf("http://localhost:3000/redirect/%s", shortURL_)
      response := struct { ShortURL string `json:"short_url"` }{ShortURL: fullShortURL}
      w.Header().Set("Content-Type", "application/json")
      w.WriteHeader(http.StatusCreated)
      json.NewEncoder(w).Encode(response)
  }
  \<close>
  The handler returns its response and the store after it.
\<close>

definition ShortUrlHandler :: "Request \<Rightarrow> Time \<Rightarrow> urlDB \<Rightarrow> panic + (response \<times> urlDB)" where
  "ShortUrlHandler r now db =
     (if Method r \<noteq> MethodPost
      then Inr (http_Error ''Invalid request method'' StatusMethodNotAllowed, db)
      else case Decode (Body r) of
        Inl err \<Rightarrow> Inr (http_Error ''Invalid request body'' StatusBadRequest, db)
      | Inr data_URL \<Rightarrow>
          (case createURL data_URL now db of
             Inl p \<Rightarrow> Inl p
           | Inr (shortURL_, db') \<Rightarrow>
               let fullShortURL = ''http://localhost:3000/redirect/'' @ shortURL_
               in Inr (Encoded [(''Content-Type'', ''application/json'')] StatusCreated
                         (JObject [(''short_url'', JString fullShortURL)]),
                       db')))"

text \<open>
  \<^verbatim>\<open>
  func redirectURLHandler(w http.ResponseWriter, r *http.Request) {
      id := r.URL.Path[len("/redirect/"):]
      url, err := getURL(id)
      if err != nil {
          http.Error(w, "URL not found", http.StatusNotFound)
          return
      }
      http.Redirect(w, r, url.OriginalURL, http.StatusFound)
  }
  \<close>
\<close>

definition redirectURLHandler :: "Request \<Rightarrow> urlDB \<Rightarrow> panic + response" where
  "redirectURLHandler r db =
     (case slice_from (Path r) (length ''/redirect/'') of
        Inl p \<Rightarrow> Inl p
      | Inr ident \<Rightarrow>
          (case getURL db ident of
             Inl err \<Rightarrow> Inr (http_Error ''URL not found'' StatusNotFound)
           | Inr url \<Rightarrow> Inr (http_Redirect (OriginalURL url) StatusFound)))"

text \<open>
  Sequences of store operations. \<open>getURL\<close> only reads the map, so a lookup leaves the
  store as it is; a \<open>createURL\<close> that panicked would leave it as it is too.
\<close>

datatype store_op = Create string Time | Get string

fun apply_op :: "urlDB \<Rightarrow> store_op \<Rightarrow> urlDB" where
  "apply_op db (Create u now) =
     (case createURL u now db of Inl p \<Rightarrow> db | Inr (ident, db') \<Rightarrow> db')"
| "apply_op db (Get ident) = db"

definition run_ops :: "store_op list \<Rightarrow> urlDB \<Rightarrow> urlDB" where
  "run_ops ops db = foldl apply_op db ops"

definition store_inv :: "urlDB \<Rightarrow> bool" where
  "store_inv db =
     (\<forall>k url. db k = Some url \<longrightarrow>
        k = ID url \<and> ID url = ShortURL url \<and> generateShortURL (OriginalURL url) = Inr k)"

section \<open>The PostgreSQL variant and the specification's link format\<close>

text \<open>
  The repository holds a second program, the same service on a PostgreSQL table. Its
  \<open>generateShortURL\<close> is written in one expression, and its \<open>ShortUrlHandler\<close> builds
  the link from the request: the host is \<open>r.Host\<close>, the scheme is \<open>https\<close> when the
  header \<open>X-Forwarded-Proto\<close> says so and \<open>http\<close> otherwise.
\<close>

text \<open>
  \<^verbatim>\<open>
  func generateShortURL(originalURL string) string {
      hasher := md5.New()
      hasher.Write([]byte(originalURL))
      return hex.EncodeToString(hasher.Sum(nil))[:8]
  }
  \<close>
\<close>

definition generateShortURL_pg :: "string \<Rightarrow> panic + string" where
  "generateShortURL_pg originalURL =
     slice_to (EncodeToString (md5_Sum (string_bytes originalURL))) 8"

definition Header_Get :: "(string \<times> string) list \<Rightarrow> string \<Rightarrow> string" where
  \<comment> \<open>\<open>r.Header.Get(k)\<close>: the value stored under \<open>k\<close>, or the empty string\<close>
  "Header_Get h k = (case map_of h k of None \<Rightarrow> [] | Some v \<Rightarrow> v)"

text \<open>
  \<^verbatim>\<open>
  host := r.Host
  scheme := "http"
  if r.Header.Get("X-Forwarded-Proto") == "https" { scheme = "https" }
  fullShortURL := fmt.Sprintf("%s://%s/r/%s", scheme, host, shortURL_ID)
  \<close>
\<close>

definition request_scheme :: "Request \<Rightarrow> string" where
  "request_scheme r =
     (if Header_Get (Header r) ''X-Forwarded-Proto'' = ''https'' then ''https'' else ''http'')"

text \<open>
  The link as the specification words it, \<open><scheme>://<host>/<prefix>/<id>\<close>. This
  definition follows the specification, not the code; the handlers are compared with it.
\<close>

definition spec_short_url :: "string \<Rightarrow> string \<Rightarrow> string \<Rightarrow> string \<Rightarrow> string" where
  "spec_short_url scheme host pfx ident = scheme @ ''://'' @ host @ ''/'' @ pfx @ ''/'' @ ident"

section \<open>Facts about the digest and its hexadecimal form\<close>

lemma hi_nibble_bound: "unat (drop_bit 4 (v :: byte)) < 16"
proof -
  have "unat v < 256" using unsigned_less [of v, where ?'a = nat] by simp
  then have "unat v div 16 < 16" by simp
  then show ?thesis by (simp add: drop_bit_eq_div unat_div)
qed

lemma lo_nibble_bound: "unat ((v :: byte) AND 0x0f) < 16"
proof -
  have "unat (v AND 15) \<le> unat (15 :: byte)"
    by (rule word_and_le1 [THEN word_le_nat_alt [THEN iffD1]])
  then show ?thesis by simp
qed

lemma hextable_nth: "k < 16 \<Longrightarrow> hextable ! k \<in> set hextable"
  by (rule nth_mem) (simp add: hextable_def)

lemma length_EncodeToString: "length (EncodeToString src) = 2 * length src"
  by (induction src) (simp_all add: EncodeToString_def)

lemma set_EncodeToString: "set (EncodeToString src) \<subseteq> set hextable"
  by (auto simp: EncodeToString_def hextable_nth hi_nibble_bound lo_nibble_bound)

lemma length_put_uint32: "length (put_uint32 w) = 4"
  by (simp add: put_uint32_def)

lemma length_md5_Sum: "length (md5_Sum msg) = 16"
  by (cases "md5_blocks md5_init (md5_pad msg)") (simp add: md5_Sum_def length_put_uint32)

lemma generateShortURL_eq:
  "generateShortURL u = Inr (take 8 (EncodeToString (md5_Sum (string_bytes u))))"
  by (simp add: generateShortURL_def slice_to_def length_EncodeToString length_md5_Sum)

lemma generateShortURL_length: "generateShortURL u = Inr s \<Longrightarrow> length s = 8"
  by (auto simp: generateShortURL_eq length_EncodeToString length_md5_Sum)

lemma generateShortURL_hex: "generateShortURL u = Inr s \<Longrightarrow> set s \<subseteq> set hextable"
  using set_EncodeToString set_take_subset by (fastforce simp: generateShortURL_eq)

lemma createURL_eq:
  "generateShortURL u = Inr i \<Longrightarrow>
   createURL u now db =
     Inr (i, db(i \<mapsto> \<lparr>ID = i, OriginalURL = u, ShortURL = i, CreationDate = now\<rparr>))"
  by (simp add: createURL_def)

text \<open>The digest evaluated on the inputs used below; each agrees with \<open>md5sum\<close>.\<close>

lemma gen_empty: "generateShortURL [] = Inr ''d41d8cd9''"
  by code_simp

lemma gen_example: "generateShortURL ''https://example.com'' = Inr ''c984d06a''"
  by code_simp

lemma gen_google:
  "generateShortURL ''https://www.google.com/search?q=golang+projects'' = Inr ''3d6a2e60''"
  by code_simp

lemma gen_1548: "generateShortURL ''https://example.com/1548'' = Inr ''7f17b0c9''"
  by code_simp

lemma gen_2133: "generateShortURL ''https://example.com/2133'' = Inr ''7f17b0c9''"
  by code_simp

section \<open>Identifier derivation\<close>

text \<open>
  C9. Derivation never goes out of bounds: for every input string, the empty one
  included, the hexadecimal encoding of the digest has exactly 32 characters, so the slice
  \<open>hash[:8]\<close> is in range and \<open>generateShortURL\<close> returns; it never panics.
\<close>

theorem generateShortURL_never_panics:
  "length (EncodeToString (md5_Sum (string_bytes u))) = 32
   \<and> generateShortURL u = Inr (take 8 (EncodeToString (md5_Sum (string_bytes u))))
   \<and> generateShortURL u \<noteq> Inl SliceBoundsOutOfRange
   \<and> length (EncodeToString (md5_Sum (string_bytes []))) = 32"
  by (simp add: generateShortURL_eq length_EncodeToString length_md5_Sum)

text \<open>
  C3. Identifier derivation is a total function of the input string alone: for every
  string \<open>u\<close>, with no validation, \<open>generateShortURL u\<close> returns a string of 8 characters,
  all of them lowercase hexadecimal digits, which is the first 8 characters of the
  hexadecimal form of the MD5 digest of the bytes of \<open>u\<close>. The PostgreSQL variant derives
  the same identifier, and the identifier \<open>createURL\<close> returns is this one whatever the
  store and the clock are.
\<close>

theorem generateShortURL_hex8:
  "\<exists>s. generateShortURL u = Inr s
       \<and> s = take 8 (EncodeToString (md5_Sum (string_bytes u)))
       \<and> length s = 8
       \<and> set s \<subseteq> set ''0123456789abcdef''
       \<and> generateShortURL_pg u = Inr s
       \<and> (\<exists>db'. createURL u now db = Inr (s, db'))"
proof -
  obtain s where s: "generateShortURL u = Inr s"
    by (simp add: generateShortURL_eq)
  have "s = take 8 (EncodeToString (md5_Sum (string_bytes u)))"
    using s by (simp add: generateShortURL_eq)
  moreover have "length s = 8"
    using s by (rule generateShortURL_length)
  moreover have "set s \<subseteq> set ''0123456789abcdef''"
    using generateShortURL_hex [OF s] by (simp add: hextable_def)
  moreover have "generateShortURL_pg u = Inr s"
    using s by (simp add: generateShortURL_pg_def generateShortURL_def)
  moreover have "\<exists>db'. createURL u now db = Inr (s, db')"
    by (simp add: createURL_eq [OF s])
  ultimately show ?thesis using s by blast
qed

section \<open>The store\<close>

text \<open>
  The part of C6 that holds: run one call at a time on the store passed to it,
  \<open>createURL\<close> returns an identifier and a store for every input string, clock value
  and store, and \<open>ShortUrlHandler\<close> always returns a response. In \<open>main.go\<close> the store
  is the global \<open>urlDB\<close>, declared without a lock and written by \<open>createURL\<close> from
  every request's goroutine; calls that overlap are not described by this development,
  and this lemma says nothing of them.
\<close>

lemma createURL_total_one_call:
  "(\<exists>i db'. createURL u now db = Inr (i, db'))
   \<and> createURL u now db \<noteq> Inl p
   \<and> (\<exists>resp db'. ShortUrlHandler r now db = Inr (resp, db'))"
proof -
  have c: "\<exists>i db'. createURL u' now db = Inr (i, db')" for u'
    by (simp add: createURL_eq [OF generateShortURL_eq])
  have "\<exists>resp db'. ShortUrlHandler r now db = Inr (resp, db')"
  proof (cases "Method r \<noteq> MethodPost")
    case True
    then show ?thesis by (simp add: ShortUrlHandler_def)
  next
    case False
    show ?thesis
    proof (cases "Decode (Body r)")
      case (Inl e)
      with False show ?thesis by (simp add: ShortUrlHandler_def)
    next
      case (Inr v)
      from c [of v] obtain i db' where "createURL v now db = Inr (i, db')" by blast
      with False Inr show ?thesis by (simp add: ShortUrlHandler_def)
    qed
  qed
  with c [of u] show ?thesis by auto
qed

text \<open>
  C2. Round trip: for every string \<open>u\<close> (the non-empty ones in particular; the empty
  string behaves the same), \<open>createURL u\<close> returns an identifier, and \<open>getURL\<close> on the
  resulting store and that identifier succeeds with a record whose \<open>OriginalURL\<close> is \<open>u\<close>.
\<close>

theorem create_then_get:
  "\<exists>i db' url. createURL u now db = Inr (i, db')
       \<and> getURL db' i = Inr url \<and> OriginalURL url = u"
  by (simp add: createURL_eq [OF generateShortURL_eq] getURL_def)

text \<open>
  C1 at its failing inputs. The claim says that a call of \<open>createURL\<close> on a store that
  already has a row for the identifier leaves that row as it is. The assignment
  \<open>urlDB[id] = URL{...}\<close> of \<open>main.go\<close> replaces it: after \<open>https://example.com/1548\<close>
  was stored at time 1, the same string submitted again at time 3 rewrites the
  \<open>CreationDate\<close>, and \<open>https://example.com/2133\<close>, which has the same identifier
  \<open>7f17b0c9\<close>, submitted at time 2 rewrites the \<open>OriginalURL\<close> as well. The identifier
  returned and the set of keys are as the claim says.
\<close>

theorem createURL_overwrites_existing_row:
  "createURL ''https://example.com/1548'' 1 Map.empty
     = Inr (''7f17b0c9'',
            [''7f17b0c9'' \<mapsto> \<lparr>ID = ''7f17b0c9'', OriginalURL = ''https://example.com/1548'',
                               ShortURL = ''7f17b0c9'', CreationDate = 1\<rparr>])
   \<and> createURL ''https://example.com/2133'' 2
        [''7f17b0c9'' \<mapsto> \<lparr>ID = ''7f17b0c9'', OriginalURL = ''https://example.com/1548'',
                           ShortURL = ''7f17b0c9'', CreationDate = 1\<rparr>]
     = Inr (''7f17b0c9'',
            [''7f17b0c9'' \<mapsto> \<lparr>ID = ''7f17b0c9'', OriginalURL = ''https://example.com/2133'',
                               ShortURL = ''7f17b0c9'', CreationDate = 2\<rparr>])
   \<and> createURL ''https://example.com/1548'' 3
        [''7f17b0c9'' \<mapsto> \<lparr>ID = ''7f17b0c9'', OriginalURL = ''https://example.com/1548'',
                           ShortURL = ''7f17b0c9'', CreationDate = 1\<rparr>]
     = Inr (''7f17b0c9'',
            [''7f17b0c9'' \<mapsto> \<lparr>ID = ''7f17b0c9'', OriginalURL = ''https://example.com/1548'',
                               ShortURL = ''7f17b0c9'', CreationDate = 3\<rparr>])
   \<and> \<lparr>ID = ''7f17b0c9'', OriginalURL = ''https://example.com/2133'',
       ShortURL = ''7f17b0c9'', CreationDate = 2\<rparr>
     \<noteq> \<lparr>ID = ''7f17b0c9'', OriginalURL = ''https://example.com/1548'',
         ShortURL = ''7f17b0c9'', CreationDate = (1::int)\<rparr>
   \<and> \<lparr>ID = ''7f17b0c9'', OriginalURL = ''https://example.com/1548'',
       ShortURL = ''7f17b0c9'', CreationDate = 3\<rparr>
     \<noteq> \<lparr>ID = ''7f17b0c9'', OriginalURL = ''https://example.com/1548'',
         ShortURL = ''7f17b0c9'', CreationDate = (1::int)\<rparr>"
  by (simp add: createURL_eq [OF gen_1548] createURL_eq [OF gen_2133])

section \<open>The invariant of the store\<close>

lemma apply_op_dom:
  "dom (apply_op db x) =
     dom db \<union> (case x of Create u t \<Rightarrow> {i. generateShortURL u = Inr i} | Get i \<Rightarrow> {})"
proof (cases x)
  case (Create u t)
  obtain i where i: "generateShortURL u = Inr i" by (simp add: generateShortURL_eq)
  then show ?thesis using Create by (auto simp: createURL_eq [OF i])
next
  case (Get i)
  then show ?thesis by simp
qed

lemma foldl_apply_op_dom:
  "dom (foldl apply_op db ops) =
     dom db \<union> {i. \<exists>u t. Create u t \<in> set ops \<and> generateShortURL u = Inr i}"
proof (induction ops arbitrary: db)
  case Nil
  then show ?case by simp
next
  case (Cons x xs)
  show ?case
  proof (cases x)
    case (Create u t)
    then show ?thesis using Cons [of "apply_op db x"] apply_op_dom [of db x] by auto
  next
    case (Get i)
    then show ?thesis using Cons [of "apply_op db x"] by auto
  qed
qed

lemma run_ops_dom:
  "dom (run_ops ops Map.empty) = {i. \<exists>u t. Create u t \<in> set ops \<and> generateShortURL u = Inr i}"
  by (simp add: run_ops_def foldl_apply_op_dom)

lemma store_inv_empty: "store_inv Map.empty"
  by (simp add: store_inv_def)

lemma store_inv_createURL:
  assumes "store_inv db" and "createURL u now db = Inr (i, db')"
  shows "store_inv db'"
proof -
  from assms(2) have i: "generateShortURL u = Inr i"
    by (auto simp: createURL_def split: sum.splits)
  with assms(2) have "db' = db(i \<mapsto> \<lparr>ID = i, OriginalURL = u, ShortURL = i, CreationDate = now\<rparr>)"
    by (simp add: createURL_eq)
  with assms(1) i show ?thesis by (auto simp: store_inv_def)
qed

lemma store_inv_apply_op: "store_inv db \<Longrightarrow> store_inv (apply_op db x)"
  by (cases x) (auto split: sum.splits dest: store_inv_createURL)

lemma store_inv_foldl: "store_inv db \<Longrightarrow> store_inv (foldl apply_op db ops)"
  by (induction ops arbitrary: db) (simp_all add: store_inv_apply_op)

lemma ShortUrlHandler_store_inv:
  assumes "store_inv db"
  shows "\<exists>resp db'. ShortUrlHandler r now db = Inr (resp, db') \<and> store_inv db'"
proof (cases "Method r \<noteq> MethodPost")
  case True
  with assms show ?thesis by (simp add: ShortUrlHandler_def)
next
  case False
  show ?thesis
  proof (cases "Decode (Body r)")
    case (Inl e)
    with False assms show ?thesis by (simp add: ShortUrlHandler_def)
  next
    case (Inr v)
    obtain i db' where c: "createURL v now db = Inr (i, db')"
      by (simp add: createURL_eq [OF generateShortURL_eq])
    with assms have "store_inv db'" by (rule store_inv_createURL)
    with False Inr c show ?thesis by (simp add: ShortUrlHandler_def)
  qed
qed

text \<open>
  C10. After any sequence of \<open>createURL\<close> and \<open>getURL\<close> calls from the empty store, every
  entry of the map has its key as \<open>ID\<close> and as \<open>ShortURL\<close>, and the key is the identifier
  derived from its \<open>OriginalURL\<close>. \<open>createURL\<close> preserves this invariant on any store that
  has it, so does \<open>ShortUrlHandler\<close>, whose only write is that call, and a lookup leaves
  the store as it is.
\<close>

theorem store_invariant:
  "store_inv (run_ops ops Map.empty)
   \<and> (store_inv db \<longrightarrow> (\<exists>i db'. createURL u now db = Inr (i, db') \<and> store_inv db'))
   \<and> (store_inv db \<longrightarrow>
        (\<exists>resp db'. ShortUrlHandler r now db = Inr (resp, db') \<and> store_inv db'))
   \<and> apply_op db (Get j) = db"
proof -
  have "store_inv (run_ops ops Map.empty)"
    by (simp add: run_ops_def store_inv_foldl store_inv_empty)
  moreover have "\<exists>i db'. createURL u now db = Inr (i, db') \<and> store_inv db'" if "store_inv db"
  proof -
    obtain i db' where c: "createURL u now db = Inr (i, db')"
      by (simp add: createURL_eq [OF generateShortURL_eq])
    with that show ?thesis using store_inv_createURL by blast
  qed
  moreover have "\<exists>resp db'. ShortUrlHandler r now db = Inr (resp, db') \<and> store_inv db'"
    if "store_inv db"
    using that by (rule ShortUrlHandler_store_inv)
  ultimately show ?thesis by simp
qed

theorem store_invariant_witness:
  "run_ops [Create ''https://example.com'' 1, Get ''nope'', Create [] 2] Map.empty ''c984d06a''
     = Some \<lparr>ID = ''c984d06a'', OriginalURL = ''https://example.com'',
             ShortURL = ''c984d06a'', CreationDate = 1\<rparr>
   \<and> generateShortURL ''https://example.com'' = Inr ''c984d06a''
   \<and> store_inv (run_ops [Create ''https://example.com'' 1, Get ''nope'', Create [] 2] Map.empty)"
proof -
  let ?ops = "[Create ''https://example.com'' 1, Get ''nope'', Create [] 2]"
  let ?row = "\<lparr>ID = ''c984d06a'', OriginalURL = ''https://example.com'',
                ShortURL = ''c984d06a'', CreationDate = 1\<rparr>"
  have row: "run_ops ?ops Map.empty ''c984d06a'' = Some ?row"
    by (simp add: run_ops_def createURL_eq [OF gen_example] createURL_eq [OF gen_empty])
  have inv: "store_inv (run_ops ?ops Map.empty)"
    using store_invariant [of ?ops] by simp
  from inv row have "generateShortURL (OriginalURL ?row) = Inr ''c984d06a''"
    unfolding store_inv_def by blast
  with row inv show ?thesis by simp
qed

section \<open>Resolution\<close>

text \<open>
  C4. \<open>getURL\<close> returns the stored record exactly when the map has a row for the
  identifier, and fails with the error \<open>URL not found\<close> exactly when it has none. On the
  path \<open>/redirect/<id>\<close> the handler calls \<open>http.Redirect\<close> with the stored
  \<open>OriginalURL\<close> and status 302 when the row exists, and \<open>http.Error\<close> with status 404
  when it does not. An identifier that no \<open>createURL\<close> of the history derived is not found.
\<close>

theorem getURL_iff_row:
  "(getURL db i = Inr url \<longleftrightarrow> db i = Some url)
   \<and> (getURL db i = Inl (errors_New ''URL not found'') \<longleftrightarrow> db i = None)
   \<and> (Path r = ''/redirect/'' @ i \<and> db i = Some url \<longrightarrow>
        redirectURLHandler r db = Inr (http_Redirect (OriginalURL url) StatusFound))
   \<and> (Path r = ''/redirect/'' @ i \<and> db i = None \<longrightarrow>
        redirectURLHandler r db = Inr (http_Error ''URL not found'' StatusNotFound))
   \<and> StatusFound = 302 \<and> StatusNotFound = 404
   \<and> ((\<forall>u t. Create u t \<in> set ops \<longrightarrow> generateShortURL u \<noteq> Inr i) \<longrightarrow>
        getURL (run_ops ops Map.empty) i = Inl (errors_New ''URL not found''))"
proof -
  have a: "getURL db i = Inr url \<longleftrightarrow> db i = Some url"
    by (simp add: getURL_def split: option.splits)
  have b: "getURL db i = Inl (errors_New ''URL not found'') \<longleftrightarrow> db i = None"
    by (simp add: getURL_def split: option.splits)
  have c: "redirectURLHandler r db = Inr (http_Redirect (OriginalURL url) StatusFound)"
    if "Path r = ''/redirect/'' @ i" "db i = Some url"
    using that by (simp add: redirectURLHandler_def slice_from_def getURL_def)
  have d: "redirectURLHandler r db = Inr (http_Error ''URL not found'' StatusNotFound)"
    if "Path r = ''/redirect/'' @ i" "db i = None"
    using that by (simp add: redirectURLHandler_def slice_from_def getURL_def)
  have e: "getURL (run_ops ops Map.empty) i = Inl (errors_New ''URL not found'')"
    if "\<forall>u t. Create u t \<in> set ops \<longrightarrow> generateShortURL u \<noteq> Inr i"
  proof -
    from that have "i \<notin> dom (run_ops ops Map.empty)"
      by (auto simp: run_ops_dom)
    then show ?thesis by (simp add: getURL_def domIff)
  qed
  from a b c d e show ?thesis by (simp add: StatusFound_def StatusNotFound_def)
qed


theorem getURL_iff_row_witness:
  "[''c984d06a'' \<mapsto> \<lparr>ID = ''c984d06a'', OriginalURL = ''https://example.com'',
                       ShortURL = ''c984d06a'', CreationDate = 1\<rparr>] ''c984d06a''
     = Some \<lparr>ID = ''c984d06a'', OriginalURL = ''https://example.com'',
             ShortURL = ''c984d06a'', CreationDate = 1\<rparr>
   \<and> redirectURLHandler
        \<lparr>Method = ''GET'', Host = ''localhost:3000'', Header = [],
         Path = ''/redirect/c984d06a'', Body = None\<rparr>
        [''c984d06a'' \<mapsto> \<lparr>ID = ''c984d06a'', OriginalURL = ''https://example.com'',
                          ShortURL = ''c984d06a'', CreationDate = 1\<rparr>]
       = Inr (http_Redirect ''https://example.com'' 302)
   \<and> redirectURLHandler
        \<lparr>Method = ''GET'', Host = ''localhost:3000'', Header = [],
         Path = ''/redirect/doesnotexist'', Body = None\<rparr>
        [''c984d06a'' \<mapsto> \<lparr>ID = ''c984d06a'', OriginalURL = ''https://example.com'',
                          ShortURL = ''c984d06a'', CreationDate = 1\<rparr>]
       = Inr (http_Error ''URL not found'' 404)
   \<and> getURL (run_ops [Create ''https://example.com'' 1] Map.empty) ''doesnotexist''
       = Inl (errors_New ''URL not found'')"
proof -
  let ?row = "\<lparr>ID = ''c984d06a'', OriginalURL = ''https://example.com'',
                ShortURL = ''c984d06a'', CreationDate = 1\<rparr>"
  let ?db = "[''c984d06a'' \<mapsto> ?row]"
  let ?hit = "\<lparr>Method = ''GET'', Host = ''localhost:3000'', Header = [],
               Path = ''/redirect/c984d06a'', Body = None\<rparr>"
  let ?miss = "\<lparr>Method = ''GET'', Host = ''localhost:3000'', Header = [],
                Path = ''/redirect/doesnotexist'', Body = None\<rparr>"
  have row: "?db ''c984d06a'' = Some ?row" by simp
  have none: "?db ''doesnotexist'' = None" by simp
  have hit: "redirectURLHandler ?hit ?db = Inr (http_Redirect ''https://example.com'' 302)"
    using getURL_iff_row [of ?db "''c984d06a''" ?row ?hit "[]"] row by simp
  have miss: "redirectURLHandler ?miss ?db = Inr (http_Error ''URL not found'' 404)"
    using getURL_iff_row [of ?db "''doesnotexist''" ?row ?miss "[]"] none by simp
  have "generateShortURL ''https://example.com'' \<noteq> Inr ''doesnotexist''"
    by (simp add: gen_example)
  then have never: "getURL (run_ops [Create ''https://example.com'' 1] Map.empty) ''doesnotexist''
       = Inl (errors_New ''URL not found'')"
    using getURL_iff_row [of ?db "''doesnotexist''" ?row ?miss "[Create ''https://example.com'' 1]"]
    by simp
  from row hit miss never show ?thesis by simp
qed

section \<open>The handler of \<open>/shorten\<close>\<close>

text \<open>
  C8. When the method of the request is not \<open>POST\<close>, \<open>ShortUrlHandler\<close> answers with
  \<open>http.Error\<close> and status 405 and returns the store as it received it; the answer is
  the same for any other store and clock.
\<close>

theorem ShortUrlHandler_not_post:
  "Method r \<noteq> MethodPost \<Longrightarrow>
     ShortUrlHandler r now db = Inr (http_Error ''Invalid request method'' StatusMethodNotAllowed, db)
     \<and> StatusMethodNotAllowed = 405
     \<and> ShortUrlHandler r now' db' =
         Inr (http_Error ''Invalid request method'' StatusMethodNotAllowed, db')"
  by (simp add: ShortUrlHandler_def StatusMethodNotAllowed_def)

theorem ShortUrlHandler_not_post_witness:
  "Method \<lparr>Method = ''GET'', Host = ''localhost:3000'', Header = [], Path = ''/shorten'',
           Body = Some (JObject [(''url'', JString ''https://example.com'')])\<rparr> \<noteq> MethodPost
   \<and> ShortUrlHandler
        \<lparr>Method = ''GET'', Host = ''localhost:3000'', Header = [], Path = ''/shorten'',
         Body = Some (JObject [(''url'', JString ''https://example.com'')])\<rparr> 7 Map.empty
       = Inr (http_Error ''Invalid request method'' 405, Map.empty)"
  using ShortUrlHandler_not_post
    [of "\<lparr>Method = ''GET'', Host = ''localhost:3000'', Header = [], Path = ''/shorten'',
          Body = Some (JObject [(''url'', JString ''https://example.com'')])\<rparr>" 7 Map.empty 7 Map.empty]
  by (simp add: MethodPost_def)

text \<open>
  What the handler does after the method check: a body the decoder rejects is answered
  with status 400 and the store is returned unchanged; a body it accepts leads to
  \<open>createURL\<close> on the decoded field and to status 201.
\<close>

lemma ShortUrlHandler_decode_error:
  "Method r = MethodPost \<Longrightarrow> Decode (Body r) = Inl e \<Longrightarrow>
     ShortUrlHandler r now db = Inr (http_Error ''Invalid request body'' StatusBadRequest, db)"
  by (simp add: ShortUrlHandler_def)

lemma ShortUrlHandler_created:
  "Method r = MethodPost \<Longrightarrow> Decode (Body r) = Inr u \<Longrightarrow> generateShortURL u = Inr i \<Longrightarrow>
     ShortUrlHandler r now db =
       Inr (Encoded [(''Content-Type'', ''application/json'')] StatusCreated
              (JObject [(''short_url'', JString (''http://localhost:3000/redirect/'' @ i))]),
            db(i \<mapsto> \<lparr>ID = i, OriginalURL = u, ShortURL = i, CreationDate = now\<rparr>))"
  by (simp add: ShortUrlHandler_def createURL_eq)

lemma matches_url: "matches_url_field ''url''"
  by (simp add: matches_url_field_def ascii_lower_def)

lemma Decode_url_object: "Decode (Some (JObject [(''url'', JString u)])) = Inr u"
  by (simp add: matches_url)

lemma slash_not_hex: "generateShortURL u = Inr i \<Longrightarrow> CHR ''/'' \<notin> set i"
  using generateShortURL_hex [of u i] by (auto simp: hextable_def)

text \<open>
  C5 at the body \<open>{}\<close>, a JSON object without a \<open>url\<close> member: the decoder reports no
  error and leaves the field empty, so the handler answers 201, not 400, and stores a row
  for the empty string under the identifier \<open>d41d8cd9\<close>.
\<close>

theorem ShortUrlHandler_missing_url:
  "ShortUrlHandler
     \<lparr>Method = ''POST'', Host = ''localhost:3000'', Header = [], Path = ''/shorten'',
      Body = Some (JObject [])\<rparr> 5 Map.empty
   = Inr (Encoded [(''Content-Type'', ''application/json'')] 201
            (JObject [(''short_url'', JString ''http://localhost:3000/redirect/d41d8cd9'')]),
          [''d41d8cd9'' \<mapsto> \<lparr>ID = ''d41d8cd9'', OriginalURL = [], ShortURL = ''d41d8cd9'',
                             CreationDate = 5\<rparr>])"
  by (simp add: ShortUrlHandler_created [OF _ _ gen_empty] MethodPost_def StatusCreated_def)

text \<open>
  C7 as stated does not hold of \<open>main.go\<close>: the link is built from the literal
  \<open>http://localhost:3000/redirect/\<close>. No configuration is read, and the request's host
  and forwarded scheme do not enter: for a request sent to host \<open>sho.rt\<close> over
  \<open>https\<close> the link derived from the request would be \<open>https://sho.rt/redirect/c984d06a\<close>,
  and the handler answers with \<open>http://localhost:3000/redirect/c984d06a\<close>.
\<close>

theorem ShortUrlHandler_ignores_request_host:
  "ShortUrlHandler
     \<lparr>Method = ''POST'', Host = ''sho.rt'', Header = [(''X-Forwarded-Proto'', ''https'')],
      Path = ''/shorten'', Body = Some (JObject [(''url'', JString ''https://example.com'')])\<rparr>
     7 Map.empty
   = Inr (Encoded [(''Content-Type'', ''application/json'')] 201
            (JObject [(''short_url'', JString ''http://localhost:3000/redirect/c984d06a'')]),
          [''c984d06a'' \<mapsto> \<lparr>ID = ''c984d06a'', OriginalURL = ''https://example.com'',
                             ShortURL = ''c984d06a'', CreationDate = 7\<rparr>])
   \<and> spec_short_url
        (request_scheme
           \<lparr>Method = ''POST'', Host = ''sho.rt'', Header = [(''X-Forwarded-Proto'', ''https'')],
            Path = ''/shorten'',
            Body = Some (JObject [(''url'', JString ''https://example.com'')])\<rparr>)
        (Host
           \<lparr>Method = ''POST'', Host = ''sho.rt'', Header = [(''X-Forwarded-Proto'', ''https'')],
            Path = ''/shorten'',
            Body = Some (JObject [(''url'', JString ''https://example.com'')])\<rparr>)
        ''redirect'' ''c984d06a''
       = ''https://sho.rt/redirect/c984d06a''
   \<and> ''http://localhost:3000/redirect/c984d06a'' \<noteq> ''https://sho.rt/redirect/c984d06a''"
  by (simp add: ShortUrlHandler_created [OF _ _ gen_example] matches_url MethodPost_def
      StatusCreated_def spec_short_url_def request_scheme_def Header_Get_def)

text \<open>
  C7, amended. For every \<open>POST\<close> request to \<open>/shorten\<close> whose body is \<open>{"url": u}\<close>, the
  handler answers with status 201 and a JSON object whose member \<open>short_url\<close> is
  \<open>http://localhost:3000/redirect/<id>\<close>, where \<open><id>\<close> is the identifier derived
  from \<open>u\<close>; the identifier holds no slash, so it is the final path segment. Scheme, host
  and prefix are the constants \<open>http\<close>, \<open>localhost:3000\<close> and \<open>redirect\<close>.
\<close>

theorem ShortUrlHandler_created_link:
  "Method r = MethodPost \<Longrightarrow> Body r = Some (JObject [(''url'', JString u)]) \<Longrightarrow>
     \<exists>i db'. generateShortURL u = Inr i
       \<and> ShortUrlHandler r now db =
           Inr (Encoded [(''Content-Type'', ''application/json'')] StatusCreated
                  (JObject [(''short_url'',
                     JString (spec_short_url ''http'' ''localhost:3000'' ''redirect'' i))]),
                db')
       \<and> StatusCreated = 201
       \<and> CHR ''/'' \<notin> set i"
proof -
  assume m: "Method r = MethodPost" and b: "Body r = Some (JObject [(''url'', JString u)])"
  obtain i where i: "generateShortURL u = Inr i" by (simp add: generateShortURL_eq)
  from b have d: "Decode (Body r) = Inr u" by (simp only: Decode_url_object)
  have "ShortUrlHandler r now db =
           Inr (Encoded [(''Content-Type'', ''application/json'')] StatusCreated
                  (JObject [(''short_url'',
                     JString (spec_short_url ''http'' ''localhost:3000'' ''redirect'' i))]),
                db(i \<mapsto> \<lparr>ID = i, OriginalURL = u, ShortURL = i, CreationDate = now\<rparr>))"
    by (simp add: ShortUrlHandler_created [OF m d i] spec_short_url_def)
  with i slash_not_hex [OF i] show ?thesis by (simp add: StatusCreated_def)
qed

theorem ShortUrlHandler_created_link_witness:
  "Method \<lparr>Method = ''POST'', Host = ''sho.rt'', Header = [(''X-Forwarded-Proto'', ''https'')],
           Path = ''/shorten'',
           Body = Some (JObject [(''url'', JString ''https://example.com'')])\<rparr> = MethodPost
   \<and> (\<exists>db'. ShortUrlHandler
        \<lparr>Method = ''POST'', Host = ''sho.rt'', Header = [(''X-Forwarded-Proto'', ''https'')],
         Path = ''/shorten'',
         Body = Some (JObject [(''url'', JString ''https://example.com'')])\<rparr> 7 Map.empty
       = Inr (Encoded [(''Content-Type'', ''application/json'')] 201
                (JObject [(''short_url'',
                   JString (spec_short_url ''http'' ''localhost:3000'' ''redirect'' ''c984d06a''))]),
              db'))"
  using ShortUrlHandler_created_link
    [of "\<lparr>Method = ''POST'', Host = ''sho.rt'', Header = [(''X-Forwarded-Proto'', ''https'')],
          Path = ''/shorten'',
          Body = Some (JObject [(''url'', JString ''https://example.com'')])\<rparr>"
        "''https://example.com''" 7 Map.empty]
  by (simp add: MethodPost_def gen_example)

end
